theory Spec2Isabelle
  imports Complex_Main "HOL-Library.Word"
begin

section \<open>Numbers: C++ \<open>double\<close>\<close>

text \<open>
  The map's camera values are C++ doubles, and \<open>cameraForLatLngs\<close> starts its
  accumulators at \<open>INFINITY\<close> and \<open>-INFINITY\<close> and divides by widths that may be
  zero.  A double is therefore a finite real or one of the three special values.
  The operations below are the exact ones on finite values, and a zero is the
  positive zero; the special values follow IEEE 754.  Where the result of an
  operation decides a branch of the map (\<open>cameraForLatLngs\<close>), each result is passed
  through \<open>rounded\<close> with the rounding of the platform, which is a parameter: it
  maps the exact result to the double that is stored, which may be an infinity
  (overflow).
\<close>

datatype double = Finite real | PosInf | NegInf | NaN

fun dless :: "double \<Rightarrow> double \<Rightarrow> bool" where
  "dless (Finite a) (Finite b) = (a < b)"
| "dless (Finite a) PosInf = True"
| "dless NegInf (Finite b) = True"
| "dless NegInf PosInf = True"
| "dless a b = False"

fun dneg :: "double \<Rightarrow> double" where
  "dneg (Finite a) = Finite (- a)"
| "dneg PosInf = NegInf"
| "dneg NegInf = PosInf"
| "dneg NaN = NaN"

fun dadd :: "double \<Rightarrow> double \<Rightarrow> double" where
  "dadd (Finite a) (Finite b) = Finite (a + b)"
| "dadd (Finite a) PosInf = PosInf"
| "dadd (Finite a) NegInf = NegInf"
| "dadd PosInf (Finite b) = PosInf"
| "dadd PosInf PosInf = PosInf"
| "dadd NegInf (Finite b) = NegInf"
| "dadd NegInf NegInf = NegInf"
| "dadd a b = NaN"

definition dsub :: "double \<Rightarrow> double \<Rightarrow> double" where
  "dsub a b = dadd a (dneg b)"

fun dmul :: "double \<Rightarrow> double \<Rightarrow> double" where
  "dmul (Finite a) (Finite b) = Finite (a * b)"
| "dmul (Finite a) PosInf = (if 0 < a then PosInf else if a < 0 then NegInf else NaN)"
| "dmul (Finite a) NegInf = (if 0 < a then NegInf else if a < 0 then PosInf else NaN)"
| "dmul PosInf (Finite b) = (if 0 < b then PosInf else if b < 0 then NegInf else NaN)"
| "dmul NegInf (Finite b) = (if 0 < b then NegInf else if b < 0 then PosInf else NaN)"
| "dmul PosInf PosInf = PosInf"
| "dmul PosInf NegInf = NegInf"
| "dmul NegInf PosInf = NegInf"
| "dmul NegInf NegInf = PosInf"
| "dmul a b = NaN"

fun ddiv :: "double \<Rightarrow> double \<Rightarrow> double" where
  "ddiv (Finite a) (Finite b) =
     (if b \<noteq> 0 then Finite (a / b)
      else if 0 < a then PosInf else if a < 0 then NegInf else NaN)"
| "ddiv (Finite a) PosInf = Finite 0"
| "ddiv (Finite a) NegInf = Finite 0"
| "ddiv PosInf (Finite b) = (if 0 \<le> b then PosInf else NegInf)"
| "ddiv NegInf (Finite b) = (if 0 \<le> b then NegInf else PosInf)"
| "ddiv a b = NaN"

fun rounded :: "(real \<Rightarrow> double) \<Rightarrow> double \<Rightarrow> double" where
  "rounded rnd (Finite x) = rnd x"
| "rounded rnd a = a"

text \<open>\<open>std::min(a, b)\<close> is \<open>(b < a) ? b : a\<close> and \<open>std::max(a, b)\<close> is
  \<open>(a < b) ? b : a\<close>.\<close>

definition std_min :: "double \<Rightarrow> double \<Rightarrow> double" where
  "std_min a b = (if dless b a then b else a)"

definition std_max :: "double \<Rightarrow> double \<Rightarrow> double" where
  "std_max a b = (if dless a b then b else a)"

text \<open>
  Modelled from the spec: the headers \<open>mbgl/util/math.hpp\<close>, \<open>mbgl/math/clamp.hpp\<close>,
  \<open>mbgl/math/minmax.hpp\<close>, \<open>mbgl/math/log2.hpp\<close> and \<open>mbgl/math/angles.hpp\<close> are
  included by the map but are not among the sources.  \<open>util::min\<close> and \<open>util::max\<close>
  on doubles are the C library's \<open>fmin\<close> and \<open>fmax\<close> (a NaN argument is dropped),
  \<open>util::clamp(value, min, max)\<close> is \<open>max(min, min(max, value))\<close>, \<open>util::log2\<close> is
  the base-2 logarithm, and \<open>deg2rad\<close>, \<open>rad2deg\<close> scale by \<open>\<pi> / 180\<close> and back.
\<close>

fun util_min :: "double \<Rightarrow> double \<Rightarrow> double" where
  "util_min NaN b = b"
| "util_min a NaN = a"
| "util_min a b = (if dless b a then b else a)"

text \<open>Modelled from the spec: \<open>util::max\<close> of \<open>mbgl/math/minmax.hpp\<close>, the C
  library's \<open>fmax\<close>.\<close>

fun util_max :: "double \<Rightarrow> double \<Rightarrow> double" where
  "util_max NaN b = b"
| "util_max a NaN = a"
| "util_max a b = (if dless a b then b else a)"

text \<open>Modelled from the spec: \<open>util::clamp(value, min, max)\<close> of \<open>mbgl/math/clamp.hpp\<close>,
  \<open>max(min, min(max, value))\<close>; the spec speaks of clamping to \<open>[min, max]\<close>.\<close>

definition util_clamp :: "double \<Rightarrow> double \<Rightarrow> double \<Rightarrow> double" where
  "util_clamp v lo hi = util_max lo (util_min hi v)"

text \<open>Modelled from the spec: \<open>util::log2\<close> of \<open>mbgl/math/log2.hpp\<close>, the base-2
  logarithm with the special values of the C library.\<close>

fun util_log2 :: "double \<Rightarrow> double" where
  "util_log2 (Finite s) =
     (if 0 < s then Finite (log 2 s) else if s = 0 then NegInf else NaN)"
| "util_log2 PosInf = PosInf"
| "util_log2 NegInf = NaN"
| "util_log2 NaN = NaN"

text \<open>Modelled from the spec: \<open>util::deg2rad\<close> of \<open>mbgl/math/angles.hpp\<close>.\<close>

definition deg2rad :: "double \<Rightarrow> double" where
  "deg2rad d = ddiv (dmul d (Finite pi)) (Finite 180)"

text \<open>Modelled from the spec: \<open>util::rad2deg\<close> of \<open>mbgl/math/angles.hpp\<close>.\<close>

definition rad2deg :: "double \<Rightarrow> double" where
  "rad2deg r = ddiv (dmul r (Finite 180)) (Finite pi)"

section \<open>Geometry and camera value types\<close>

text \<open>Modelled from the spec: the value types of the map's interface (\<open>LatLng\<close>,
  \<open>ScreenCoordinate\<close>, \<open>Size\<close>, \<open>EdgeInsets\<close>, \<open>LatLngBounds\<close>, \<open>CameraOptions\<close>,
  \<open>BoundOptions\<close>) are declared in headers that are not among the sources; their
  fields are the ones the map reads and writes, and sections 3 and 6 of the spec
  name.\<close>

record LatLng =
  latitude :: double
  longitude :: double

record ScreenCoordinate =
  sc_x :: double
  sc_y :: double

record Size =
  width :: nat
  height :: nat

record EdgeInsets =
  topInset :: double
  leftInset :: double
  bottomInset :: double
  rightInset :: double

record LatLngBounds =
  southwest :: LatLng
  northeast :: LatLng

text \<open>Modelled from the spec: \<open>CameraOptions\<close> (\<open>mbgl/map/camera.hpp\<close>); every field
  is a \<open>std::optional\<close>; the builders \<open>withCenter\<close>, \<open>withPadding\<close>, \<open>withAnchor\<close>, \<open>withZoom\<close>, \<open>withBearing\<close> and
  \<open>withPitch\<close> set one field each.  Bearing and pitch are in degrees here.\<close>

record CameraOptions =
  center :: "LatLng option"
  padding :: "EdgeInsets option"
  anchor :: "ScreenCoordinate option"
  zoom :: "double option"
  bearing :: "double option"
  pitch :: "double option"

definition CameraOptions_default :: CameraOptions where
  "CameraOptions_default =
     \<lparr>center = None, padding = None, anchor = None, zoom = None, bearing = None, pitch = None\<rparr>"

text \<open>Modelled from the spec: \<open>BoundOptions\<close> (\<open>mbgl/map/bound_options.hpp\<close>): the
  optional bounds and the optional limits of zoom and pitch, the pitch in degrees.\<close>

record BoundOptions =
  bounds :: "LatLngBounds option"
  minZoom :: "double option"
  maxZoom :: "double option"
  minPitch :: "double option"
  maxPitch :: "double option"


section \<open>The transform\<close>

text \<open>Modelled from the spec: \<open>MapMode\<close>, the camera change mode of the observer and
  the three mode enums of the transform state (\<open>mbgl/map/mode.hpp\<close> and
  \<open>map_observer.hpp\<close> are not among the sources; sections 3 and 6 name them).\<close>

datatype MapMode = Continuous | Static | Tile

datatype CameraChangeMode = Immediate | Animated

datatype NorthOrientation = Upwards | Rightwards | Downwards | Leftwards

datatype ConstrainMode = ConstrainNone | HeightOnly | WidthAndHeight

datatype ViewportMode = Default | FlippedY

text \<open>
  Modelled from the spec: the classes \<open>TransformState\<close> and \<open>Transform\<close>
  (\<open>mbgl/map/transform.hpp\<close>, \<open>transform_state.hpp\<close> and their implementations) are
  not among the sources; the map only calls them.  The state record has the fields
  of section 3 of the specification under the names of the getters the map uses:
  center, zoom, bearing and pitch (radians), viewport size, edge insets, the three
  modes, the zoom and pitch ranges (pitch in radians) and the optional bounds.
\<close>

record TransformState =
  getLatLng :: LatLng
  getZoom :: double
  getBearing :: double
  getPitch :: double
  getSize :: Size
  getEdgeInsets :: EdgeInsets
  getNorthOrientation :: NorthOrientation
  getConstrainMode :: ConstrainMode
  getViewportMode :: ViewportMode
  getMinZoom :: double
  getMaxZoom :: double
  getMinPitch :: double
  getMaxPitch :: double
  getLatLngBounds :: "LatLngBounds option"

text \<open>Time is counted in milliseconds; a callback is named by a number, and calling
  it is an effect.\<close>

type_synonym TimePoint = nat
type_synonym Duration = nat
type_synonym CallbackId = nat

text \<open>Modelled from the spec: \<open>AnimationOptions\<close> (\<open>mbgl/map/camera.hpp\<close>) is not
  among the sources; the fields are the duration, the easing curve and the completion
  callback of section 4.2.\<close>

record AnimationOptions =
  duration :: "Duration option"
  easing :: "(double \<Rightarrow> double) option"
  transitionFinishFn :: "CallbackId option"

text \<open>
  Modelled from the spec: section 9.  A transition stores its start time, its
  duration and an interpolation function from progress to camera state, together
  with its target and the completion callback of the call that started it.
\<close>

record Transition =
  tr_start :: TimePoint
  tr_duration :: Duration
  tr_frame :: "double \<Rightarrow> TransformState"
  tr_target :: TransformState
  tr_finish :: "CallbackId option"

text \<open>Modelled from the spec: the transform owns one state, the gesture flag and the
  transition in flight, if any (section 3).\<close>

record Transform =
  getState :: TransformState
  isGestureInProgress :: bool
  transition :: "Transition option"

text \<open>What a call does besides changing the map: log lines, calls of callbacks,
  observer notifications and requests to the renderer frontend, in order.  A log
  line has the severity and the event class of \<open>mbgl/util/logging.hpp\<close>; an
  exception is the \<open>util::MisuseException\<close> the map throws or any other one.\<close>

datatype EventSeverity = Debug | Info | Warning | Error

datatype Event = General | OtherEvent

datatype exception_ptr = MisuseException string | OtherException string

datatype Effect =
    LogMessage EventSeverity Event string
  | StillImageCallbackCall CallbackId "exception_ptr option"
  | OnCameraWillChange CameraChangeMode
  | OnCameraIsChanging
  | OnCameraDidChange CameraChangeMode
  | TransitionFinishCall CallbackId
  | RendererUpdate
  | OnDidFinishRenderingFrame bool

text \<open>
  The projection between geographic and screen coordinates, the curved path of
  \<open>flyTo\<close> and the geometry of \<open>moveBy\<close> and \<open>rotateBy\<close> belong to the absent
  transform; they are parameters of the model.  So is \<open>roundToDouble\<close>, the rounding
  of the platform's double arithmetic, which \<open>cameraForLatLngs\<close> applies to the result
  of each of its operations.
\<close>

record Projection =
  latLngToScreenCoordinate :: "TransformState \<Rightarrow> LatLng \<Rightarrow> ScreenCoordinate"
  screenCoordinateToLatLng :: "TransformState \<Rightarrow> ScreenCoordinate \<Rightarrow> LatLng"
  movedCenter :: "TransformState \<Rightarrow> ScreenCoordinate \<Rightarrow> LatLng"
  rotatedBearing :: "TransformState \<Rightarrow> ScreenCoordinate \<Rightarrow> ScreenCoordinate \<Rightarrow> double"
  flyFrame :: "TransformState \<Rightarrow> TransformState \<Rightarrow> double \<Rightarrow> TransformState"
  roundToDouble :: "real \<Rightarrow> double"

text \<open>
  Modelled from the spec: sections 3, 4.1.  Zoom and pitch are clamped to their
  ranges, the center is clamped into the bounds when bounds are set, and the
  bearing is normalised to \<open>(-\<pi>, \<pi>]\<close>.  \<open>scaleZoom\<close> is the log2-based conversion
  of a scale to a zoom difference, \<open>scale = 2 ^ \<Delta>zoom\<close>.
\<close>

definition constrainLatLng :: "LatLngBounds option \<Rightarrow> LatLng \<Rightarrow> LatLng" where
  "constrainLatLng b c =
     (case b of
        None \<Rightarrow> c
      | Some bb \<Rightarrow>
          \<lparr>latitude = util_clamp (latitude c) (latitude (southwest bb)) (latitude (northeast bb)),
           longitude = util_clamp (longitude c) (longitude (southwest bb)) (longitude (northeast bb))\<rparr>)"

text \<open>Modelled from the spec: the bearing is normalised to \<open>(-\<pi>, \<pi>]\<close> (section 3).\<close>

fun normalizeBearing :: "double \<Rightarrow> double" where
  "normalizeBearing (Finite r) = Finite (r - 2 * pi * of_int \<lceil>(r - pi) / (2 * pi)\<rceil>)"
| "normalizeBearing a = NaN"

text \<open>Modelled from the spec: the clamping of a state: center into the bounds, zoom
  and pitch into their ranges (sections 3 and 4.1).\<close>

definition constrain :: "TransformState \<Rightarrow> TransformState" where
  "constrain s =
     s\<lparr>getLatLng := constrainLatLng (getLatLngBounds s) (getLatLng s),
       getZoom := util_clamp (getZoom s) (getMinZoom s) (getMaxZoom s),
       getPitch := util_clamp (getPitch s) (getMinPitch s) (getMaxPitch s)\<rparr>"

text \<open>Modelled from the spec: \<open>scaleZoom(scale)\<close>, the base-2 logarithm of the scale
  (section 4.1).\<close>

definition scaleZoom :: "double \<Rightarrow> double" where
  "scaleZoom s = util_log2 s"


text \<open>
  Modelled from the spec: section 4.2.  A camera is merged into the state field by
  field, only the fields that are present, and the result is clamped.  The camera's
  bearing and pitch are in degrees; the map reads them back as
  \<open>rad2deg(-getBearing())\<close> and \<open>rad2deg(getPitch())\<close>.
\<close>

definition applyCamera :: "TransformState \<Rightarrow> CameraOptions \<Rightarrow> TransformState" where
  "applyCamera s camera =
     constrain
       (s\<lparr>getLatLng := (case center camera of None \<Rightarrow> getLatLng s | Some c \<Rightarrow> c),
          getEdgeInsets := (case padding camera of None \<Rightarrow> getEdgeInsets s | Some p \<Rightarrow> p),
          getZoom := (case zoom camera of None \<Rightarrow> getZoom s | Some z \<Rightarrow> z),
          getBearing :=
            (case bearing camera of None \<Rightarrow> getBearing s
             | Some b \<Rightarrow> normalizeBearing (dneg (deg2rad b))),
          getPitch := (case pitch camera of None \<Rightarrow> getPitch s | Some p \<Rightarrow> deg2rad p)\<rparr>)"

text \<open>Modelled from the spec: \<open>Transform::getCameraOptions\<close>, the camera of the current
  state with bearing and pitch in degrees; a padding given by the caller replaces
  the state's.\<close>

definition Transform_getCameraOptions :: "EdgeInsets option \<Rightarrow> Transform \<Rightarrow> CameraOptions" where
  "Transform_getCameraOptions pad t =
     \<lparr>center = Some (getLatLng (getState t)),
      padding = Some (case pad of None \<Rightarrow> getEdgeInsets (getState t) | Some p \<Rightarrow> p),
      anchor = None,
      zoom = Some (getZoom (getState t)),
      bearing = Some (rad2deg (dneg (getBearing (getState t)))),
      pitch = Some (rad2deg (getPitch (getState t)))\<rparr>"

text \<open>
  Modelled from the spec: section 4.2.  \<open>jumpTo\<close> changes the state at once and
  leaves the transform idle, without firing the completion of an animation in
  flight; it notifies \<open>onCameraWillChange\<close> and \<open>onCameraDidChange\<close>, not animated.
\<close>

definition Transform_jumpTo :: "CameraOptions \<Rightarrow> Transform \<Rightarrow> Transform \<times> Effect list" where
  "Transform_jumpTo camera t =
     (t\<lparr>getState := applyCamera (getState t) camera, transition := None\<rparr>,
      [OnCameraWillChange Immediate, OnCameraDidChange Immediate])"

text \<open>
  Modelled from the spec: sections 4.2, 5 and 9.  A transition with a duration other
  than zero is registered with its start time and replaces the one in flight, which
  is abandoned and whose completion callback is not called; with no duration the
  target is applied at once and the call's own completion callback is called.  The
  frame function of \<open>easeTo\<close> interpolates zoom, bearing, pitch and center linearly
  in the eased progress (ease-out cubic unless the options give an easing); the one
  of \<open>flyTo\<close> is the curved path, a parameter.
\<close>

definition interpolate :: "double \<Rightarrow> double \<Rightarrow> double \<Rightarrow> double" where
  "interpolate a b k = dadd a (dmul (dsub b a) k)"

text \<open>Modelled from the spec: the default easing, ease-out cubic (section 4.2).\<close>

definition defaultEasing :: "double \<Rightarrow> double" where
  "defaultEasing k =
     dsub (Finite 1)
       (dmul (dsub (Finite 1) k) (dmul (dsub (Finite 1) k) (dsub (Finite 1) k)))"

text \<open>Modelled from the spec: the frame function of \<open>easeTo\<close> (section 4.2).\<close>

definition easeFrame ::
  "(double \<Rightarrow> double) option \<Rightarrow> TransformState \<Rightarrow> TransformState \<Rightarrow> double \<Rightarrow> TransformState" where
  "easeFrame e from to k =
     (let u = (case e of None \<Rightarrow> defaultEasing k | Some f \<Rightarrow> f k) in
      to\<lparr>getLatLng :=
            \<lparr>latitude = interpolate (latitude (getLatLng from)) (latitude (getLatLng to)) u,
             longitude = interpolate (longitude (getLatLng from)) (longitude (getLatLng to)) u\<rparr>,
         getZoom := interpolate (getZoom from) (getZoom to) u,
         getBearing := interpolate (getBearing from) (getBearing to) u,
         getPitch := interpolate (getPitch from) (getPitch to) u\<rparr>)"

text \<open>Modelled from the spec: calling a completion callback, when there is one.\<close>

definition finishEffects :: "CallbackId option \<Rightarrow> Effect list" where
  "finishEffects f = (case f of None \<Rightarrow> [] | Some cb \<Rightarrow> [TransitionFinishCall cb])"

text \<open>Modelled from the spec: the start of a transition (sections 4.2 and 5).\<close>

definition startTransition ::
  "TransformState \<Rightarrow> (double \<Rightarrow> TransformState) \<Rightarrow> AnimationOptions \<Rightarrow> TimePoint \<Rightarrow> Transform
     \<Rightarrow> Transform \<times> Effect list" where
  "startTransition target frame animation now t =
     (case duration animation of
        Some (Suc d) \<Rightarrow>
          (t\<lparr>transition :=
               Some \<lparr>tr_start = now, tr_duration = Suc d, tr_frame = frame,
                     tr_target = target, tr_finish = transitionFinishFn animation\<rparr>\<rparr>,
           [OnCameraWillChange Animated])
      | _ \<Rightarrow>
          (t\<lparr>getState := target, transition := None\<rparr>,
           [OnCameraWillChange Immediate, OnCameraDidChange Immediate]
             @ finishEffects (transitionFinishFn animation)))"

text \<open>Modelled from the spec: \<open>Transform::easeTo\<close> (section 4.2).\<close>

definition Transform_easeTo ::
  "CameraOptions \<Rightarrow> AnimationOptions \<Rightarrow> TimePoint \<Rightarrow> Transform \<Rightarrow> Transform \<times> Effect list" where
  "Transform_easeTo camera animation now t =
     (let target = applyCamera (getState t) camera in
      startTransition target (easeFrame (easing animation) (getState t) target) animation now t)"

text \<open>Modelled from the spec: \<open>Transform::flyTo\<close>, like \<open>easeTo\<close> with the curved path
  (section 4.2).\<close>

definition Transform_flyTo ::
  "Projection \<Rightarrow> CameraOptions \<Rightarrow> AnimationOptions \<Rightarrow> TimePoint \<Rightarrow> Transform
     \<Rightarrow> Transform \<times> Effect list" where
  "Transform_flyTo P camera animation now t =
     (let target = applyCamera (getState t) camera in
      startTransition target (flyFrame P (getState t) target) animation now t)"

text \<open>Modelled from the spec: \<open>Transform::moveBy\<close>, an \<open>easeTo\<close> to the center moved by
  the screen vector (section 4.2).\<close>

definition Transform_moveBy ::
  "Projection \<Rightarrow> ScreenCoordinate \<Rightarrow> AnimationOptions \<Rightarrow> TimePoint \<Rightarrow> Transform
     \<Rightarrow> Transform \<times> Effect list" where
  "Transform_moveBy P point animation now t =
     Transform_easeTo (CameraOptions_default\<lparr>center := Some (movedCenter P (getState t) point)\<rparr>)
       animation now t"

text \<open>Modelled from the spec: \<open>Transform::rotateBy\<close>, an \<open>easeTo\<close> to the bearing turned
  by the angle between the two screen vectors (section 4.2).\<close>

definition Transform_rotateBy ::
  "Projection \<Rightarrow> ScreenCoordinate \<Rightarrow> ScreenCoordinate \<Rightarrow> AnimationOptions \<Rightarrow> TimePoint
     \<Rightarrow> Transform \<Rightarrow> Transform \<times> Effect list" where
  "Transform_rotateBy P first second animation now t =
     Transform_easeTo
       (CameraOptions_default\<lparr>bearing := Some (rotatedBearing P (getState t) first second)\<rparr>)
       animation now t"

text \<open>
  Modelled from the spec: sections 4.2 and 9.  The render loop advances the
  transition once per frame.  When the duration has elapsed the state becomes the
  target, the transform is idle, \<open>onCameraDidChange\<close> is notified and the completion
  callback is called; before that the camera is the clamped frame at the elapsed
  share of the duration and \<open>onCameraIsChanging\<close> is notified.  The camera is
  center, zoom, bearing, pitch and padding (glossary).  \<open>cancelTransitions\<close>
  forces the transform idle and leaves the camera as it is.
\<close>

definition withCamera :: "TransformState \<Rightarrow> TransformState \<Rightarrow> TransformState" where
  "withCamera s c =
     s\<lparr>getLatLng := getLatLng c, getZoom := getZoom c, getBearing := getBearing c,
       getPitch := getPitch c, getEdgeInsets := getEdgeInsets c\<rparr>"

text \<open>Modelled from the spec: the per-frame advance of the transition in flight
  (sections 4.2, 5 and 9).\<close>

definition updateTransitions :: "TimePoint \<Rightarrow> Transform \<Rightarrow> Transform \<times> Effect list" where
  "updateTransitions now t =
     (case transition t of
        None \<Rightarrow> (t, [])
      | Some tr \<Rightarrow>
          if tr_start tr + tr_duration tr \<le> now
          then (t\<lparr>getState := constrain (withCamera (getState t) (tr_target tr)),
                  transition := None\<rparr>,
                OnCameraDidChange Animated # finishEffects (tr_finish tr))
          else (t\<lparr>getState :=
                     constrain
                       (withCamera (getState t)
                          (tr_frame tr
                             (ddiv (Finite (real (now - tr_start tr)))
                                (Finite (real (tr_duration tr))))))\<rparr>,
                [OnCameraIsChanging]))"

text \<open>Modelled from the spec: \<open>Transform::cancelTransitions\<close> forces the transform idle,
  leaves the camera as it is and notifies \<open>onCameraDidChange\<close> (section 4.2).\<close>

definition Transform_cancelTransitions :: "Transform \<Rightarrow> Transform \<times> Effect list" where
  "Transform_cancelTransitions t =
     (case transition t of
        None \<Rightarrow> (t, [])
      | Some tr \<Rightarrow> (t\<lparr>transition := None\<rparr>, [OnCameraDidChange Animated]))"

text \<open>Modelled from the spec: whether a transition is active.\<close>

definition inTransition :: "Transform \<Rightarrow> bool" where
  "inTransition t = (transition t \<noteq> None)"







section \<open>The map and its implementation object\<close>

text \<open>The part of \<open>style::Style\<close> the map reads (\<open>isLoaded()\<close> and \<open>getLastError()\<close> of
  its implementation), the annotation manager as far as \<open>setStyle\<close> reaches it, the
  still-image request and \<open>Map::Impl\<close> with the fields its header declares.  The
  observer and the renderer frontend are references: what is sent to them is an
  effect.  The file source and the action journal take no part in the calls
  below and are left out; the journal has a section of its own.\<close>

record Style =
  isLoaded :: bool
  getLastError :: "exception_ptr option"

record AnnotationManager =
  styleOfAnnotations :: "Style option"

record StillImageRequest =
  callback :: CallbackId

datatype RenderMode = Partial | Full

record Impl =
  transform :: Transform
  mode :: MapMode
  pixelRatio :: double
  crossSourceCollisions :: bool
  debugOptions :: nat
  style :: Style
  annotationManager :: AnnotationManager
  cameraMutated :: bool
  prefetchZoomDelta :: "8 word"
  loading :: bool
  rendererFullyLoaded :: bool
  stillImageRequest :: "StillImageRequest option"

definition andThen ::
  "Impl \<times> Effect list \<Rightarrow> (Impl \<Rightarrow> Impl \<times> Effect list) \<Rightarrow> Impl \<times> Effect list" where
  "andThen r f = (let (i, es) = r; (i', es') = f i in (i', es @ es'))"

definition onTransform ::
  "(Transform \<Rightarrow> Transform \<times> Effect list) \<Rightarrow> Impl \<Rightarrow> Impl \<times> Effect list" where
  "onTransform f impl = (let (t, es) = f (transform impl) in (impl\<lparr>transform := t\<rparr>, es))"

text \<open>
  Modelled from the spec: sections 2 and 4.3.  The member functions of \<open>Map::Impl\<close>
  are declared in its header, their bodies (\<open>map_impl.cpp\<close>) are not among the
  sources.  \<open>onUpdate\<close> asks the renderer frontend for a render pass; \<open>jumpTo\<close> records
  that a camera call was made, jumps the transform and updates;
  \<open>onDidFinishRenderingFrame\<close> sets \<open>rendererFullyLoaded\<close> to the negation of
  \<open>needsRepaint\<close> and forwards the event to the observer.
\<close>

definition Impl_onUpdate :: "Impl \<Rightarrow> Impl \<times> Effect list" where
  "Impl_onUpdate impl = (impl, [RendererUpdate])"

text \<open>Modelled from the spec: \<open>Map::Impl::jumpTo\<close> records the camera call, jumps the
  transform and updates (sections 3 and 4.2).\<close>

definition Impl_jumpTo :: "CameraOptions \<Rightarrow> Impl \<Rightarrow> Impl \<times> Effect list" where
  "Impl_jumpTo camera impl =
     andThen (onTransform (Transform_jumpTo camera) (impl\<lparr>cameraMutated := True\<rparr>)) Impl_onUpdate"

text \<open>Modelled from the spec: \<open>Map::Impl::onDidFinishRenderingFrame\<close> sets
  \<open>rendererFullyLoaded = !needsRepaint\<close> and forwards the event (section 4.3).\<close>

definition Impl_onDidFinishRenderingFrame ::
  "RenderMode \<Rightarrow> bool \<Rightarrow> bool \<Rightarrow> double \<Rightarrow> double \<Rightarrow> Impl \<Rightarrow> Impl \<times> Effect list" where
  "Impl_onDidFinishRenderingFrame renderMode needsRepaint placementChanged encodeTime renderTime impl =
     (impl\<lparr>rendererFullyLoaded := \<not> needsRepaint\<rparr>, [OnDidFinishRenderingFrame needsRepaint])"

subsection \<open>Still images and style\<close>

definition Map_renderStill :: "CallbackId option \<Rightarrow> Impl \<Rightarrow> Impl \<times> Effect list" where
  "Map_renderStill cb impl =
     (case cb of
        None \<Rightarrow> (impl, [LogMessage Error General ''StillImageCallback not set''])
      | Some c \<Rightarrow>
          if mode impl \<noteq> Static \<and> mode impl \<noteq> Tile
          then (impl,
                [StillImageCallbackCall c
                   (Some (MisuseException ''Map is not in static or tile image render modes''))])
          else if stillImageRequest impl \<noteq> None
          then (impl,
                [StillImageCallbackCall c
                   (Some (MisuseException ''Map is currently rendering an image''))])
          else if getLastError (style impl) \<noteq> None
          then (impl, [StillImageCallbackCall c (getLastError (style impl))])
          else Impl_onUpdate (impl\<lparr>stillImageRequest := Some \<lparr>callback = c\<rparr>\<rparr>))"

definition Map_renderStill_camera ::
  "CameraOptions \<Rightarrow> nat \<Rightarrow> CallbackId option \<Rightarrow> Impl \<Rightarrow> Impl \<times> Effect list" where
  "Map_renderStill_camera camera dbg cb impl =
     andThen
       (onTransform (Transform_jumpTo camera) (impl\<lparr>cameraMutated := True, debugOptions := dbg\<rparr>))
       (Map_renderStill cb)"

definition Map_triggerRepaint :: "Impl \<Rightarrow> Impl \<times> Effect list" where
  "Map_triggerRepaint impl = Impl_onUpdate impl"

text \<open>\<open>Map::setStyle\<close> calls \<open>Map::Impl::onStyleLoading\<close>, whose body is not among the
  sources and of which the spec gives two accounts (the reset of \<open>cameraMutated\<close> in
  section 4.3, the cancelling of a transition in section 5): the handler is a
  parameter.  \<open>LayerManager::annotationsEnabled\<close> is a constant of the build: a
  parameter too.\<close>

definition Map_setStyle ::
  "(Impl \<Rightarrow> Impl \<times> Effect list) \<Rightarrow> bool \<Rightarrow> Style \<Rightarrow> Impl \<Rightarrow> Impl \<times> Effect list" where
  "Map_setStyle onStyleLoading annotationsEnabled st impl =
     andThen (onStyleLoading impl)
       (\<lambda>i. let i1 = i\<lparr>style := st\<rparr> in
            (if annotationsEnabled
             then i1\<lparr>annotationManager := (annotationManager i1)\<lparr>styleOfAnnotations := Some st\<rparr>\<rparr>
             else i1,
             []))"

definition Map_isFullyLoaded :: "Impl \<Rightarrow> bool" where
  "Map_isFullyLoaded impl = (isLoaded (style impl) \<and> rendererFullyLoaded impl)"

subsection \<open>Transitions and camera\<close>

definition Map_cancelTransitions :: "Impl \<Rightarrow> Impl \<times> Effect list" where
  "Map_cancelTransitions impl = andThen (onTransform Transform_cancelTransitions impl) Impl_onUpdate"

definition Map_setGestureInProgress :: "bool \<Rightarrow> Impl \<Rightarrow> Impl \<times> Effect list" where
  "Map_setGestureInProgress inProgress impl =
     Impl_onUpdate (impl\<lparr>transform := (transform impl)\<lparr>isGestureInProgress := inProgress\<rparr>\<rparr>)"

definition Map_getCameraOptions :: "EdgeInsets option \<Rightarrow> Impl \<Rightarrow> CameraOptions" where
  "Map_getCameraOptions pad impl = Transform_getCameraOptions pad (transform impl)"

definition Map_jumpTo :: "CameraOptions \<Rightarrow> Impl \<Rightarrow> Impl \<times> Effect list" where
  "Map_jumpTo camera impl = Impl_jumpTo camera impl"

definition Map_easeTo ::
  "CameraOptions \<Rightarrow> AnimationOptions \<Rightarrow> TimePoint \<Rightarrow> Impl \<Rightarrow> Impl \<times> Effect list" where
  "Map_easeTo camera animation now impl =
     andThen (onTransform (Transform_easeTo camera animation now) (impl\<lparr>cameraMutated := True\<rparr>))
       Impl_onUpdate"

definition Map_flyTo ::
  "Projection \<Rightarrow> CameraOptions \<Rightarrow> AnimationOptions \<Rightarrow> TimePoint \<Rightarrow> Impl \<Rightarrow> Impl \<times> Effect list" where
  "Map_flyTo P camera animation now impl =
     andThen (onTransform (Transform_flyTo P camera animation now) (impl\<lparr>cameraMutated := True\<rparr>))
       Impl_onUpdate"

definition Map_moveBy ::
  "Projection \<Rightarrow> ScreenCoordinate \<Rightarrow> AnimationOptions \<Rightarrow> TimePoint \<Rightarrow> Impl
     \<Rightarrow> Impl \<times> Effect list" where
  "Map_moveBy P point animation now impl =
     andThen (onTransform (Transform_moveBy P point animation now) (impl\<lparr>cameraMutated := True\<rparr>))
       Impl_onUpdate"

definition Map_pitchBy ::
  "double \<Rightarrow> AnimationOptions \<Rightarrow> TimePoint \<Rightarrow> Impl \<Rightarrow> Impl \<times> Effect list" where
  "Map_pitchBy p animation now impl =
     Map_easeTo
       (CameraOptions_default
          \<lparr>pitch := Some (dsub (rad2deg (getPitch (getState (transform impl)))) p)\<rparr>)
       animation now impl"

definition Map_scaleBy ::
  "double \<Rightarrow> ScreenCoordinate option \<Rightarrow> AnimationOptions \<Rightarrow> TimePoint \<Rightarrow> Impl
     \<Rightarrow> Impl \<times> Effect list" where
  "Map_scaleBy scale anch animation now impl =
     (let z = dadd (getZoom (getState (transform impl))) (scaleZoom scale) in
      Map_easeTo (CameraOptions_default\<lparr>zoom := Some z, anchor := anch\<rparr>) animation now impl)"

definition Map_rotateBy ::
  "Projection \<Rightarrow> ScreenCoordinate \<Rightarrow> ScreenCoordinate \<Rightarrow> AnimationOptions \<Rightarrow> TimePoint \<Rightarrow> Impl
     \<Rightarrow> Impl \<times> Effect list" where
  "Map_rotateBy P first second animation now impl =
     andThen
       (onTransform (Transform_rotateBy P first second animation now) (impl\<lparr>cameraMutated := True\<rparr>))
       Impl_onUpdate"


subsection \<open>Cameras that fit a set of points\<close>

text \<open>The loop of \<open>cameraForLatLngs\<close> over the points: the north-east pixel starts at
  \<open>(-INFINITY, -INFINITY)\<close>, the south-west one at \<open>(INFINITY, INFINITY)\<close>.\<close>

fun pixelBounds ::
  "(LatLng \<Rightarrow> ScreenCoordinate) \<Rightarrow> LatLng list \<Rightarrow> ScreenCoordinate \<times> ScreenCoordinate
     \<Rightarrow> ScreenCoordinate \<times> ScreenCoordinate" where
  "pixelBounds proj [] (nePixel, swPixel) = (nePixel, swPixel)"
| "pixelBounds proj (latLng # rest) (nePixel, swPixel) =
     (let pixel = proj latLng;
          swx = std_min (sc_x swPixel) (sc_x pixel);
          nex = std_max (sc_x nePixel) (sc_x pixel);
          swy = std_min (sc_y swPixel) (sc_y pixel);
          ney = std_max (sc_y nePixel) (sc_y pixel)
      in pixelBounds proj rest (\<lparr>sc_x = nex, sc_y = ney\<rparr>, \<lparr>sc_x = swx, sc_y = swy\<rparr>))"

definition shapeBounds ::
  "Projection \<Rightarrow> LatLng list \<Rightarrow> Transform \<Rightarrow> ScreenCoordinate \<times> ScreenCoordinate" where
  "shapeBounds P latLngs t =
     pixelBounds (latLngToScreenCoordinate P (getState t)) latLngs
       (\<lparr>sc_x = NegInf, sc_y = NegInf\<rparr>, \<lparr>sc_x = PosInf, sc_y = PosInf\<rparr>)"

text \<open>The local variables \<open>width\<close> and \<open>height\<close> of \<open>cameraForLatLngs\<close>.\<close>

definition shapeWidth :: "Projection \<Rightarrow> LatLng list \<Rightarrow> Transform \<Rightarrow> double" where
  "shapeWidth P latLngs t =
     (let (nePixel, swPixel) = shapeBounds P latLngs t
      in rounded (roundToDouble P) (dsub (sc_x nePixel) (sc_x swPixel)))"

definition shapeHeight :: "Projection \<Rightarrow> LatLng list \<Rightarrow> Transform \<Rightarrow> double" where
  "shapeHeight P latLngs t =
     (let (nePixel, swPixel) = shapeBounds P latLngs t
      in rounded (roundToDouble P) (dsub (sc_y nePixel) (sc_y swPixel)))"

text \<open>The local variables \<open>scaleX\<close> and \<open>scaleY\<close> of \<open>cameraForLatLngs\<close> after the
  padding has been taken off: \<open>size.width / width\<close>, then
  \<open>scaleX -= (padding.left() + padding.right()) / width\<close>.  The viewport size is
  an unsigned 32-bit integer, which the cast to double keeps as it is.\<close>

definition scaleXOf :: "Projection \<Rightarrow> LatLng list \<Rightarrow> Transform \<Rightarrow> EdgeInsets \<Rightarrow> double" where
  "scaleXOf P latLngs t pad =
     (let rnd = rounded (roundToDouble P);
          w = shapeWidth P latLngs t;
          scaleX = rnd (ddiv (Finite (real (width (getSize (getState t))))) w)
      in rnd (dsub scaleX (rnd (ddiv (rnd (dadd (leftInset pad) (rightInset pad))) w))))"

definition scaleYOf :: "Projection \<Rightarrow> LatLng list \<Rightarrow> Transform \<Rightarrow> EdgeInsets \<Rightarrow> double" where
  "scaleYOf P latLngs t pad =
     (let rnd = rounded (roundToDouble P);
          h = shapeHeight P latLngs t;
          scaleY = rnd (ddiv (Finite (real (height (getSize (getState t))))) h)
      in rnd (dsub scaleY (rnd (ddiv (rnd (dadd (topInset pad) (bottomInset pad))) h))))"

text \<open>The local variable \<open>minScale\<close> of \<open>cameraForLatLngs\<close> when the zoom is
  calculated: \<open>INFINITY\<close>, unless the width or the height is positive.\<close>

definition minScaleOf :: "Projection \<Rightarrow> LatLng list \<Rightarrow> Transform \<Rightarrow> EdgeInsets \<Rightarrow> double" where
  "minScaleOf P latLngs t pad =
     (if dless (Finite 0) (shapeWidth P latLngs t) \<or> dless (Finite 0) (shapeHeight P latLngs t)
      then util_min (scaleXOf P latLngs t pad) (scaleYOf P latLngs t pad)
      else PosInf)"

text \<open>The diagnostic of \<open>cameraForLatLngs\<close>: \<open>Log::Error(Event::General, ...)\<close>.\<close>

definition unableToCalculateZoom :: Effect where
  "unableToCalculateZoom =
     LogMessage Error General
       (''Unable to calculate appropriate zoom level for bounds. Vertical ''
          @ ''or horizontal padding is greater ''
          @ ''than map's height or width.'')"


definition cameraForLatLngs ::
  "Projection \<Rightarrow> LatLng list \<Rightarrow> Transform \<Rightarrow> EdgeInsets \<Rightarrow> CameraOptions \<times> Effect list" where
  "cameraForLatLngs P latLngs t pad =
     (if latLngs = [] then (CameraOptions_default, [])
      else
        let rnd = rounded (roundToDouble P);
            (nePixel, swPixel) = shapeBounds P latLngs t;
            minScale = minScaleOf P latLngs t pad;
            z0 = getZoom (getState t);
            (z, logged) =
              (if dless (Finite 0) minScale
               then (util_clamp (rnd (dadd z0 (rnd (util_log2 minScale))))
                       (getMinZoom (getState t)) (getMaxZoom (getState t)), [])
               else (z0, [unableToCalculateZoom]));
            centerPixel =
              \<lparr>sc_x = rnd (ddiv (rnd (dadd (sc_x nePixel) (sc_x swPixel))) (Finite 2)),
               sc_y = rnd (ddiv (rnd (dadd (sc_y nePixel) (sc_y swPixel))) (Finite 2))\<rparr>
        in (CameraOptions_default
              \<lparr>center := Some (screenCoordinateToLatLng P (getState t) centerPixel),
               padding := Some pad,
               zoom := Some z\<rparr>,
            logged))"

text \<open>\<open>Map::cameraForLatLngs\<close> is a const member: it returns the map it was called on
  as it found it.  With a bearing or a pitch it works on a transform of its own,
  built from a copy of the state.\<close>

definition Transform_of_state :: "TransformState \<Rightarrow> Transform" where
  "Transform_of_state s = \<lparr>getState = s, isGestureInProgress = False, transition = None\<rparr>"

definition Map_cameraForLatLngs ::
  "Projection \<Rightarrow> LatLng list \<Rightarrow> EdgeInsets \<Rightarrow> double option \<Rightarrow> double option \<Rightarrow> Impl
     \<Rightarrow> Impl \<times> CameraOptions \<times> Effect list" where
  "Map_cameraForLatLngs P latLngs pad b p impl =
     (if b = None \<and> p = None
      then (impl, cameraForLatLngs P latLngs (transform impl) pad)
      else
        let t0 = Transform_of_state (getState (transform impl));
            t1 = fst (Transform_jumpTo (CameraOptions_default\<lparr>bearing := b, pitch := p\<rparr>) t0);
            (cam, logged) = cameraForLatLngs P latLngs t1 pad
        in (impl,
            cam\<lparr>bearing := Some (rad2deg (dneg (getBearing (getState t1)))),
                pitch := Some (rad2deg (getPitch (getState t1)))\<rparr>,
            logged))"

definition Map_cameraForLatLngBounds ::
  "Projection \<Rightarrow> LatLngBounds \<Rightarrow> EdgeInsets \<Rightarrow> double option \<Rightarrow> double option \<Rightarrow> Impl
     \<Rightarrow> Impl \<times> CameraOptions \<times> Effect list" where
  "Map_cameraForLatLngBounds P bb pad b p impl =
     Map_cameraForLatLngs P
       [\<lparr>latitude = latitude (northeast bb), longitude = longitude (southwest bb)\<rparr>,
        southwest bb,
        \<lparr>latitude = latitude (southwest bb), longitude = longitude (northeast bb)\<rparr>,
        northeast bb]
       pad b p impl"

subsection \<open>Bounds\<close>










subsection \<open>Sequences of camera calls\<close>

text \<open>The camera calls of the map, each made at a time of the clock, and the frame
  of the render loop, which advances the transition in flight (modelled from the
  spec, section 5: animations are advanced by the render loop's per-frame tick).\<close>

text \<open>Modelled from the spec: the frame of the render loop is not a call of the map; it
  stands for the per-frame tick of section 5.  The other calls are members of \<open>Map\<close>.\<close>

datatype MapCall =
    JumpTo CameraOptions
  | EaseTo CameraOptions AnimationOptions
  | FlyTo CameraOptions AnimationOptions
  | MoveBy ScreenCoordinate AnimationOptions
  | PitchBy double AnimationOptions
  | ScaleBy double "ScreenCoordinate option" AnimationOptions
  | RotateBy ScreenCoordinate ScreenCoordinate AnimationOptions
  | RenderStillCamera CameraOptions nat "CallbackId option"
  | CancelTransitions
  | SetGestureInProgress bool
  | RenderFrame

fun stepMap :: "Projection \<Rightarrow> TimePoint \<times> MapCall \<Rightarrow> Impl \<Rightarrow> Impl \<times> Effect list" where
  "stepMap P (now, JumpTo camera) impl = Map_jumpTo camera impl"
| "stepMap P (now, EaseTo camera animation) impl = Map_easeTo camera animation now impl"
| "stepMap P (now, FlyTo camera animation) impl = Map_flyTo P camera animation now impl"
| "stepMap P (now, MoveBy point animation) impl = Map_moveBy P point animation now impl"
| "stepMap P (now, PitchBy p animation) impl = Map_pitchBy p animation now impl"
| "stepMap P (now, ScaleBy scale anch animation) impl = Map_scaleBy scale anch animation now impl"
| "stepMap P (now, RotateBy first second animation) impl =
     Map_rotateBy P first second animation now impl"
| "stepMap P (now, RenderStillCamera camera dbg cb) impl = Map_renderStill_camera camera dbg cb impl"
| "stepMap P (now, CancelTransitions) impl = Map_cancelTransitions impl"
| "stepMap P (now, SetGestureInProgress b) impl = Map_setGestureInProgress b impl"
| "stepMap P (now, RenderFrame) impl = onTransform (updateTransitions now) impl"

fun runMap :: "Projection \<Rightarrow> (TimePoint \<times> MapCall) list \<Rightarrow> Impl \<Rightarrow> Impl \<times> Effect list" where
  "runMap P [] impl = (impl, [])"
| "runMap P (c # cs) impl = andThen (stepMap P c impl) (runMap P cs)"

text \<open>The frames of the render loop at the given times, and the completion
  callbacks called among a list of effects, in order.\<close>

definition frames :: "TimePoint list \<Rightarrow> (TimePoint \<times> MapCall) list" where
  "frames ts = map (\<lambda>t. (t, RenderFrame)) ts"

fun finishCallsOf :: "Effect list \<Rightarrow> CallbackId list" where
  "finishCallsOf [] = []"
| "finishCallsOf (TransitionFinishCall cb # es) = cb # finishCallsOf es"
| "finishCallsOf (e # es) = finishCallsOf es"

text \<open>\<open>a <= b\<close> on doubles, and the zoom of a state lying within its range.\<close>

definition dle :: "double \<Rightarrow> double \<Rightarrow> bool" where
  "dle a b = (dless a b \<or> (a = b \<and> a \<noteq> NaN))"

definition zoomWithinRange :: "TransformState \<Rightarrow> bool" where
  "zoomWithinRange s = (dle (getMinZoom s) (getZoom s) \<and> dle (getZoom s) (getMaxZoom s))"



section \<open>The action journal\<close>















section \<open>Concrete maps\<close>

text \<open>A map of 100 by 100 pixels at zoom 5 with the zoom range 0 to 22, in the
  continuous mode, and a projection that reads a longitude as the horizontal and a
  latitude as the vertical pixel position and computes without rounding.  The
  properties below are evaluated on them.\<close>

definition zeroInsets :: EdgeInsets where
  "zeroInsets =
     \<lparr>topInset = Finite 0, leftInset = Finite 0, bottomInset = Finite 0, rightInset = Finite 0\<rparr>"

definition exampleState :: TransformState where
  "exampleState =
     \<lparr>getLatLng = \<lparr>latitude = Finite 0, longitude = Finite 0\<rparr>,
      getZoom = Finite 5, getBearing = Finite 0, getPitch = Finite 0,
      getSize = \<lparr>width = 100, height = 100\<rparr>,
      getEdgeInsets = zeroInsets,
      getNorthOrientation = Upwards, getConstrainMode = HeightOnly, getViewportMode = Default,
      getMinZoom = Finite 0, getMaxZoom = Finite 22,
      getMinPitch = Finite 0, getMaxPitch = Finite 1,
      getLatLngBounds = None\<rparr>"

definition exampleStyle :: Style where
  "exampleStyle = \<lparr>isLoaded = True, getLastError = None\<rparr>"

definition exampleImpl :: Impl where
  "exampleImpl =
     \<lparr>transform = Transform_of_state exampleState, mode = Continuous, pixelRatio = Finite 1,
      crossSourceCollisions = True, debugOptions = 0, style = exampleStyle,
      annotationManager = \<lparr>styleOfAnnotations = None\<rparr>, cameraMutated = False,
      prefetchZoomDelta = 4, loading = False, rendererFullyLoaded = False,
      stillImageRequest = None\<rparr>"

definition exampleProjection :: Projection where
  "exampleProjection =
     \<lparr>latLngToScreenCoordinate = (\<lambda>s l. \<lparr>sc_x = longitude l, sc_y = latitude l\<rparr>),
      screenCoordinateToLatLng = (\<lambda>s c. \<lparr>latitude = sc_y c, longitude = sc_x c\<rparr>),
      movedCenter = (\<lambda>s p. getLatLng s),
      rotatedBearing = (\<lambda>s a b. getBearing s),
      flyFrame = (\<lambda>a b k. b),
      roundToDouble = Finite\<rparr>"

text \<open>An animation that lasts a second and has a completion callback.\<close>

definition oneSecond :: AnimationOptions where
  "oneSecond = \<lparr>duration = Some 1000, easing = None, transitionFinishFn = Some 1\<rparr>"











text \<open>A sequence of camera calls: an \<open>easeTo\<close> beyond the maximum zoom, two frames
  (one half-way, one at the end of the transition) and a \<open>scaleBy\<close> without
  animation.\<close>

definition noAnimation :: AnimationOptions where
  "noAnimation = \<lparr>duration = None, easing = None, transitionFinishFn = None\<rparr>"

definition exampleCalls :: "(TimePoint \<times> MapCall) list" where
  "exampleCalls =
     [(0, EaseTo (CameraOptions_default\<lparr>zoom := Some (Finite 30)\<rparr>) oneSecond),
      (500, RenderFrame),
      (1000, RenderFrame),
      (1200, ScaleBy (Finite 8) None noAnimation)]"



text \<open>A second transition of one second, to zoom 7, with a completion callback of
  its own: it is started 100 milliseconds into the first one.\<close>

definition anotherSecond :: AnimationOptions where
  "anotherSecond = \<lparr>duration = Some 1000, easing = None, transitionFinishFn = Some 2\<rparr>"

definition zoomTo :: "real \<Rightarrow> CameraOptions" where
  "zoomTo z = CameraOptions_default\<lparr>zoom := Some (Finite z)\<rparr>"

section \<open>Properties\<close>

subsection \<open>Still images, loading state and style\<close>

text \<open>
  Claim C10.  \<open>Map::cameraForLatLngs\<close> with an empty list of coordinates and neither a
  bearing nor a pitch returns a default-constructed \<open>CameraOptions\<close>, in which no
  field is set, logs nothing and leaves the map, and so its transform, as it was.
\<close>

theorem cameraForLatLngs_empty:
  "Map_cameraForLatLngs P [] pad None None impl = (impl, CameraOptions_default, [])
   \<and> center CameraOptions_default = None \<and> zoom CameraOptions_default = None
   \<and> padding CameraOptions_default = None \<and> anchor CameraOptions_default = None
   \<and> bearing CameraOptions_default = None \<and> pitch CameraOptions_default = None"
  by (simp add: Map_cameraForLatLngs_def cameraForLatLngs_def CameraOptions_default_def)

text \<open>
  Claim C3.  \<open>Map::isFullyLoaded()\<close> is true exactly when the style reports loaded
  and the flag \<open>rendererFullyLoaded\<close> is set; every \<open>onDidFinishRenderingFrame\<close> sets
  the flag to the negation of its \<open>needsRepaint\<close> argument, so that right after the
  callback the map is fully loaded exactly when the style is loaded and no repaint
  is needed.
\<close>

theorem isFullyLoaded_iff:
  "Map_isFullyLoaded impl = (isLoaded (style impl) \<and> rendererFullyLoaded impl)
   \<and> rendererFullyLoaded (fst (Impl_onDidFinishRenderingFrame m needsRepaint pc e r impl))
       = (\<not> needsRepaint)
   \<and> Map_isFullyLoaded (fst (Impl_onDidFinishRenderingFrame m needsRepaint pc e r impl))
       = (isLoaded (style impl) \<and> \<not> needsRepaint)"
  by (simp add: Map_isFullyLoaded_def Impl_onDidFinishRenderingFrame_def)

text \<open>
  Claim C4.  \<open>Map::renderStill(callback)\<close>, called while the map mode is neither
  \<open>Static\<close> nor \<open>Tile\<close> or while a still-image request is in flight, returns the map
  unchanged, whatever the callback: no request is created and the one in flight is
  not replaced.  A callback that is set is called at once, with a
  \<open>MisuseException\<close>, and nothing else happens; the mode is checked first.
\<close>

theorem renderStill_misuse:
  assumes "(mode impl \<noteq> Static \<and> mode impl \<noteq> Tile) \<or> stillImageRequest impl \<noteq> None"
  shows "Map_renderStill (Some c) impl =
           (impl,
            [StillImageCallbackCall c
               (Some (MisuseException
                  (if mode impl \<noteq> Static \<and> mode impl \<noteq> Tile
                   then ''Map is not in static or tile image render modes''
                   else ''Map is currently rendering an image'')))])
       \<and> fst (Map_renderStill cb impl) = impl
       \<and> stillImageRequest (fst (Map_renderStill cb impl)) = stillImageRequest impl"
  using assms by (cases cb) (auto simp: Map_renderStill_def)

theorem renderStill_misuse_witness:
  "((mode exampleImpl \<noteq> Static \<and> mode exampleImpl \<noteq> Tile)
      \<or> stillImageRequest exampleImpl \<noteq> None)
   \<and> Map_renderStill (Some 7) exampleImpl =
       (exampleImpl,
        [StillImageCallbackCall 7
           (Some (MisuseException ''Map is not in static or tile image render modes''))])"
proof -
  have h: "(mode exampleImpl \<noteq> Static \<and> mode exampleImpl \<noteq> Tile)
             \<or> stillImageRequest exampleImpl \<noteq> None"
    by (simp add: exampleImpl_def)
  have m: "mode exampleImpl \<noteq> Static \<and> mode exampleImpl \<noteq> Tile"
    by (simp add: exampleImpl_def)
  show ?thesis using h m renderStill_misuse [OF h, of 7] by simp
qed

text \<open>The overload \<open>Map::renderStill(camera, debugOptions, callback)\<close> records the
  camera call, stores the debug options and jumps the transform before it
  delegates: under the same misuse the callback is called with the same error and
  the request is untouched, after the jump.\<close>

lemma renderStill_camera_misuse:
  assumes "(mode impl \<noteq> Static \<and> mode impl \<noteq> Tile) \<or> stillImageRequest impl \<noteq> None"
  shows "stillImageRequest (fst (Map_renderStill_camera camera dbg (Some c) impl))
           = stillImageRequest impl
       \<and> snd (Map_renderStill_camera camera dbg (Some c) impl) =
           [OnCameraWillChange Immediate, OnCameraDidChange Immediate,
            StillImageCallbackCall c
              (Some (MisuseException
                 (if mode impl \<noteq> Static \<and> mode impl \<noteq> Tile
                  then ''Map is not in static or tile image render modes''
                  else ''Map is currently rendering an image'')))]
       \<and> cameraMutated (fst (Map_renderStill_camera camera dbg (Some c) impl))"
  using assms
  by (auto simp: Map_renderStill_camera_def Map_renderStill_def andThen_def onTransform_def
      Transform_jumpTo_def)

text \<open>
  \<open>Map::setStyle\<close> has no call of \<open>cancelTransitions\<close> of its own: it leaves the
  transform as \<open>onStyleLoading\<close> returns it.
\<close>

lemma setStyle_transform:
  "transform (fst (Map_setStyle onStyleLoading annotationsEnabled st impl))
     = transform (fst (onStyleLoading impl))"
  by (cases "onStyleLoading impl") (simp add: Map_setStyle_def andThen_def Let_def)

subsection \<open>Clamping\<close>

lemma util_clamp_within:
  "dle lo hi \<Longrightarrow> dle lo (util_clamp v lo hi) \<and> dle (util_clamp v lo hi) hi"
  by (cases v; cases lo; cases hi) (auto simp: util_clamp_def dle_def)


lemma util_clamp_idem: "util_clamp (util_clamp v lo hi) lo hi = util_clamp v lo hi"
  by (cases v; cases lo; cases hi) (auto simp: util_clamp_def)

subsection \<open>Cameras that fit a set of points\<close>






















subsection \<open>Jumps and bounds\<close>

lemma applyCamera_fields:
  "getZoom (applyCamera s c) =
     util_clamp (case zoom c of None \<Rightarrow> getZoom s | Some z \<Rightarrow> z) (getMinZoom s) (getMaxZoom s)"
  "getPitch (applyCamera s c) =
     util_clamp (case pitch c of None \<Rightarrow> getPitch s | Some p \<Rightarrow> deg2rad p)
       (getMinPitch s) (getMaxPitch s)"
  "getMinZoom (applyCamera s c) = getMinZoom s"
  "getMaxZoom (applyCamera s c) = getMaxZoom s"
  "getMinPitch (applyCamera s c) = getMinPitch s"
  "getMaxPitch (applyCamera s c) = getMaxPitch s"
  "getLatLngBounds (applyCamera s c) = getLatLngBounds s"
  "getSize (applyCamera s c) = getSize s"
  by (simp_all add: applyCamera_def constrain_def)

lemma jumpTo_state:
  "getState (transform (fst (Map_jumpTo c impl))) = applyCamera (getState (transform impl)) c"
  "transition (transform (fst (Map_jumpTo c impl))) = None"
  by (simp_all add: Map_jumpTo_def Impl_jumpTo_def andThen_def onTransform_def
      Transform_jumpTo_def Impl_onUpdate_def)
























lemma dle_trans: "dle a b \<Longrightarrow> dle b c \<Longrightarrow> dle a c"
  by (cases a; cases b; cases c) (auto simp: dle_def)

lemma within_range_nonempty: "zoomWithinRange s \<Longrightarrow> dle (getMinZoom s) (getMaxZoom s)"
  unfolding zoomWithinRange_def using dle_trans by blast

lemma within_applyCamera:
  "dle (getMinZoom s) (getMaxZoom s) \<Longrightarrow> zoomWithinRange (applyCamera s c)"
  using util_clamp_within [of "getMinZoom s" "getMaxZoom s"]
  by (simp add: zoomWithinRange_def applyCamera_fields)

lemma within_constrain_withCamera:
  "dle (getMinZoom s) (getMaxZoom s) \<Longrightarrow> zoomWithinRange (constrain (withCamera s x))"
  using util_clamp_within [of "getMinZoom s" "getMaxZoom s"]
  by (simp add: zoomWithinRange_def constrain_def withCamera_def)

lemma within_startTransition:
  assumes "zoomWithinRange (getState t)" "zoomWithinRange target"
  shows "zoomWithinRange (getState (fst (startTransition target frame animation now t)))"
  using assms by (simp add: startTransition_def split: option.splits nat.splits)

lemma within_easeTo:
  assumes "zoomWithinRange (getState t)"
  shows "zoomWithinRange (getState (fst (Transform_easeTo camera animation now t)))"
  using assms within_applyCamera [OF within_range_nonempty [OF assms]]
  by (simp add: Transform_easeTo_def Let_def within_startTransition)

lemma within_flyTo:
  assumes "zoomWithinRange (getState t)"
  shows "zoomWithinRange (getState (fst (Transform_flyTo P camera animation now t)))"
  using assms within_applyCamera [OF within_range_nonempty [OF assms]]
  by (simp add: Transform_flyTo_def Let_def within_startTransition)

lemma within_jumpTo:
  assumes "zoomWithinRange (getState t)"
  shows "zoomWithinRange (getState (fst (Transform_jumpTo camera t)))"
  using within_applyCamera [OF within_range_nonempty [OF assms]]
  by (simp add: Transform_jumpTo_def)

lemma within_updateTransitions:
  assumes "zoomWithinRange (getState t)"
  shows "zoomWithinRange (getState (fst (updateTransitions now t)))"
  using assms within_constrain_withCamera [OF within_range_nonempty [OF assms]]
  by (simp add: updateTransitions_def split: option.splits)

lemma within_cancel:
  assumes "zoomWithinRange (getState t)"
  shows "zoomWithinRange (getState (fst (Transform_cancelTransitions t)))"
  using assms by (simp add: Transform_cancelTransitions_def split: option.splits)

lemma andThen_fst: "fst (andThen r f) = fst (f (fst r))"
  by (simp add: andThen_def split: prod.splits)

lemma andThen_snd: "snd (andThen r f) = snd r @ snd (f (fst r))"
  by (simp add: andThen_def split: prod.splits)

lemma onTransform_fst: "fst (onTransform f impl) = impl\<lparr>transform := fst (f (transform impl))\<rparr>"
  by (simp add: onTransform_def split: prod.splits)

lemma onTransform_snd: "snd (onTransform f impl) = snd (f (transform impl))"
  by (simp add: onTransform_def split: prod.splits)

lemma onTransform_state:
  "getState (transform (fst (andThen (onTransform f impl) Impl_onUpdate)))
     = getState (fst (f (transform impl)))"
  by (simp add: andThen_def onTransform_def Impl_onUpdate_def split: prod.splits)

lemma renderStill_transform: "transform (fst (Map_renderStill cb impl)) = transform impl"
  by (simp add: Map_renderStill_def Impl_onUpdate_def split: option.splits)

lemma within_stepMap:
  assumes "zoomWithinRange (getState (transform impl))"
  shows "zoomWithinRange (getState (transform (fst (stepMap P c impl))))"
proof (cases c)
  case (Pair now call)
  show ?thesis
  proof (cases call)
    case (JumpTo camera)
    then show ?thesis using Pair assms within_jumpTo [of "transform impl"]
      by (simp add: Map_jumpTo_def Impl_jumpTo_def onTransform_state)
  next
    case (EaseTo camera animation)
    then show ?thesis using Pair assms within_easeTo [of "transform impl"]
      by (simp add: Map_easeTo_def onTransform_state)
  next
    case (FlyTo camera animation)
    then show ?thesis using Pair assms within_flyTo [of "transform impl"]
      by (simp add: Map_flyTo_def onTransform_state)
  next
    case (MoveBy point animation)
    then show ?thesis using Pair assms within_easeTo [of "transform impl"]
      by (simp add: Map_moveBy_def Transform_moveBy_def onTransform_state)
  next
    case (PitchBy p animation)
    then show ?thesis using Pair assms within_easeTo [of "transform impl"]
      by (simp add: Map_pitchBy_def Map_easeTo_def onTransform_state)
  next
    case (ScaleBy scale anch animation)
    then show ?thesis using Pair assms within_easeTo [of "transform impl"]
      by (simp add: Map_scaleBy_def Let_def Map_easeTo_def onTransform_state)
  next
    case (RotateBy first second animation)
    then show ?thesis using Pair assms within_easeTo [of "transform impl"]
      by (simp add: Map_rotateBy_def Transform_rotateBy_def onTransform_state)
  next
    case (RenderStillCamera camera dbg cb)
    then show ?thesis using Pair assms within_jumpTo [of "transform impl" camera]
      by (simp add: Map_renderStill_camera_def andThen_fst onTransform_fst renderStill_transform)
  next
    case CancelTransitions
    then show ?thesis using Pair assms within_cancel [of "transform impl"]
      by (simp add: Map_cancelTransitions_def onTransform_state)
  next
    case (SetGestureInProgress b)
    then show ?thesis using Pair assms
      by (simp add: Map_setGestureInProgress_def Impl_onUpdate_def)
  next
    case RenderFrame
    then show ?thesis using Pair assms within_updateTransitions [of "transform impl" now]
      by (simp add: onTransform_fst)
  qed
qed

lemma within_runMap:
  "zoomWithinRange (getState (transform impl)) \<Longrightarrow>
   zoomWithinRange (getState (transform (fst (runMap P calls impl))))"
proof (induction calls arbitrary: impl)
  case Nil
  then show ?case by simp
next
  case (Cons c cs)
  have "zoomWithinRange (getState (transform (fst (stepMap P c impl))))"
    using within_stepMap [OF Cons.prems] .
  from Cons.IH [OF this] show ?case
    by (simp add: andThen_fst)
qed

text \<open>
  Claim C1.  After \<open>Map::jumpTo\<close> with a camera whose zoom is \<open>z\<close>, \<open>getCameraOptions\<close>
  reports the zoom \<open>clamp(z, minZoom, maxZoom)\<close>, for every \<open>z\<close>.  When the zoom range
  is not empty the zoom lies within it after every jump, and a zoom within its
  range stays within it through every sequence of camera calls and frames of the
  render loop.
\<close>

theorem jumpTo_zoom_clamped:
  "zoom (Map_getCameraOptions pad (fst (Map_jumpTo (camera\<lparr>zoom := Some z\<rparr>) impl)))
     = Some (util_clamp z (getMinZoom (getState (transform impl)))
               (getMaxZoom (getState (transform impl))))
   \<and> (dle (getMinZoom (getState (transform impl))) (getMaxZoom (getState (transform impl)))
        \<longrightarrow> zoomWithinRange (getState (transform (fst (Map_jumpTo camera impl)))))
   \<and> (zoomWithinRange (getState (transform impl))
        \<longrightarrow> zoomWithinRange (getState (transform (fst (runMap P calls impl)))))"
  using within_runMap [of impl P calls] within_applyCamera [of "getState (transform impl)" camera]
  by (simp add: Map_getCameraOptions_def Transform_getCameraOptions_def jumpTo_state
      applyCamera_fields)

theorem jumpTo_zoom_clamped_witness:
  "zoom (Map_getCameraOptions None
           (fst (Map_jumpTo (CameraOptions_default\<lparr>zoom := Some (Finite 30)\<rparr>) exampleImpl)))
     = Some (Finite 22)
   \<and> dle (getMinZoom (getState (transform exampleImpl)))
         (getMaxZoom (getState (transform exampleImpl)))
   \<and> zoomWithinRange
         (getState (transform
            (fst (Map_jumpTo (CameraOptions_default\<lparr>zoom := Some (Finite 30)\<rparr>) exampleImpl))))
   \<and> zoomWithinRange (getState (transform exampleImpl))
   \<and> zoomWithinRange (getState (transform (fst (runMap exampleProjection exampleCalls exampleImpl))))"
proof -
  have r: "getMinZoom (getState (transform exampleImpl)) = Finite 0"
    "getMaxZoom (getState (transform exampleImpl)) = Finite 22"
    "getZoom (getState (transform exampleImpl)) = Finite 5"
    by (simp_all add: exampleImpl_def Transform_of_state_def exampleState_def)
  have w: "zoomWithinRange (getState (transform exampleImpl))"
    by (simp add: zoomWithinRange_def r dle_def)
  have d: "dle (getMinZoom (getState (transform exampleImpl)))
             (getMaxZoom (getState (transform exampleImpl)))"
    by (simp add: r dle_def)
  show ?thesis
    using w d
      jumpTo_zoom_clamped [where pad = None and z = "Finite 30" and impl = exampleImpl
        and camera = "CameraOptions_default\<lparr>zoom := Some (Finite 30)\<rparr>"
        and P = exampleProjection and calls = exampleCalls]
    by (simp add: r util_clamp_def)
qed

subsection \<open>The action journal\<close>











subsection \<open>Transitions\<close>

lemma constrainLatLng_idem: "constrainLatLng b (constrainLatLng b c) = constrainLatLng b c"
  by (cases b) (simp_all add: constrainLatLng_def util_clamp_idem)

lemma constrain_idem: "constrain (constrain s) = constrain s"
  by (simp add: constrain_def constrainLatLng_idem util_clamp_idem)

lemma constrain_applyCamera: "constrain (applyCamera s c) = applyCamera s c"
  by (simp add: applyCamera_def constrain_idem)

lemma withCamera_applyCamera: "withCamera s (applyCamera s c) = applyCamera s c"
  by (simp add: withCamera_def applyCamera_def constrain_def)

lemma withCamera_frame: "withCamera (constrain (withCamera s y)) x = withCamera s x"
  by (simp add: withCamera_def constrain_def)

lemma finishCallsOf_append: "finishCallsOf (xs @ ys) = finishCallsOf xs @ finishCallsOf ys"
  by (induction xs rule: finishCallsOf.induct) simp_all

lemma runMap_append_fst:
  "fst (runMap P (xs @ ys) impl) = fst (runMap P ys (fst (runMap P xs impl)))"
  by (induction xs arbitrary: impl) (simp_all add: andThen_fst)

lemma runMap_append_snd:
  "snd (runMap P (xs @ ys) impl) =
     snd (runMap P xs impl) @ snd (runMap P ys (fst (runMap P xs impl)))"
  by (induction xs arbitrary: impl) (simp_all add: andThen_fst andThen_snd runMap_append_fst)

lemma runMap_Cons_fst:
  "fst (runMap P (c # cs) impl) = fst (runMap P cs (fst (stepMap P c impl)))"
  by (simp add: andThen_fst)

lemma runMap_Cons_snd:
  "snd (runMap P (c # cs) impl) = snd (stepMap P c impl) @ snd (runMap P cs (fst (stepMap P c impl)))"
  by (simp add: andThen_snd)

lemma startTransition_registers:
  assumes "duration animation = Some d" "0 < d"
  shows "startTransition target frame animation now t =
           (t\<lparr>transition :=
                Some \<lparr>tr_start = now, tr_duration = d, tr_frame = frame,
                      tr_target = target, tr_finish = transitionFinishFn animation\<rparr>\<rparr>,
            [OnCameraWillChange Animated])"
  using assms by (cases d) (simp_all add: startTransition_def)

lemma transition_start:
  assumes "call = EaseTo camera animation \<or> call = FlyTo camera animation"
    and "duration animation = Some d" "0 < d"
  shows "\<exists>frame.
           transform (fst (stepMap P (now, call) impl)) =
             (transform impl)
               \<lparr>transition :=
                  Some \<lparr>tr_start = now, tr_duration = d, tr_frame = frame,
                        tr_target = applyCamera (getState (transform impl)) camera,
                        tr_finish = transitionFinishFn animation\<rparr>\<rparr>"
    and "finishCallsOf (snd (stepMap P (now, call) impl)) = []"
  using assms(1) startTransition_registers [OF assms(2,3)]
  by (auto simp: Map_easeTo_def Map_flyTo_def andThen_fst andThen_snd onTransform_fst
      onTransform_snd Transform_easeTo_def Transform_flyTo_def Let_def Impl_onUpdate_def)

lemma frame_in_progress:
  assumes "transition (transform impl) = Some tr" "now < tr_start tr + tr_duration tr"
  shows "transition (transform (fst (stepMap P (now, RenderFrame) impl))) = Some tr"
    and "finishCallsOf (snd (stepMap P (now, RenderFrame) impl)) = []"
    and "withCamera (getState (transform (fst (stepMap P (now, RenderFrame) impl)))) x
           = withCamera (getState (transform impl)) x"
  using assms
  by (simp_all add: onTransform_fst onTransform_snd updateTransitions_def withCamera_frame)

lemma frames_in_progress:
  assumes "transition (transform impl) = Some tr" "\<forall>t\<in>set ts. t < tr_start tr + tr_duration tr"
  shows "transition (transform (fst (runMap P (frames ts) impl))) = Some tr
       \<and> finishCallsOf (snd (runMap P (frames ts) impl)) = []
       \<and> withCamera (getState (transform (fst (runMap P (frames ts) impl)))) x
           = withCamera (getState (transform impl)) x"
  using assms
proof (induction ts arbitrary: impl)
  case Nil
  then show ?case by (simp add: frames_def)
next
  case (Cons t ts)
  have lt: "t < tr_start tr + tr_duration tr" using Cons.prems(2) by simp
  note F = frame_in_progress [OF Cons.prems(1) lt, of P]
  have rest: "\<forall>t\<in>set ts. t < tr_start tr + tr_duration tr" using Cons.prems(2) by simp
  from Cons.IH [OF F(1) rest] F(2) F(3) [of x] show ?case
    by (simp add: frames_def andThen_fst andThen_snd finishCallsOf_append)
qed

lemma frame_completes:
  assumes "transition (transform impl) = Some tr" "tr_start tr + tr_duration tr \<le> now"
  shows "transition (transform (fst (stepMap P (now, RenderFrame) impl))) = None"
    and "getState (transform (fst (stepMap P (now, RenderFrame) impl)))
           = constrain (withCamera (getState (transform impl)) (tr_target tr))"
    and "finishCallsOf (snd (stepMap P (now, RenderFrame) impl))
           = (case tr_finish tr of None \<Rightarrow> [] | Some cb \<Rightarrow> [cb])"
  using assms
  by (simp_all add: onTransform_fst onTransform_snd updateTransitions_def finishEffects_def
      split: option.splits)

lemma frames_idle:
  assumes "transition (transform impl) = None"
  shows "runMap P (frames ts) impl = (impl, [])"
proof (induction ts)
  case Nil
  then show ?case by (simp add: frames_def)
next
  case (Cons t ts)
  have "stepMap P (t, RenderFrame) impl = (impl, [])"
    using assms by (simp add: onTransform_def updateTransitions_def)
  then show ?case using Cons by (simp add: frames_def andThen_def)
qed


text \<open>
  Claim C2.  At most one transition is active.  Let a transition A (an \<open>easeTo\<close> or a
  \<open>flyTo\<close> with a duration) be started at time \<open>tA\<close>, let frames be rendered while A is
  in progress, and let a transition B be started at \<open>tB\<close>; let frames be rendered
  while B is in progress, one frame at or after B's end, and any frames after that.
  Then A is in progress when B starts, no completion callback is called before B
  ends, the only completion callback called in the whole run is B's, called once,
  and in the end the transform is idle and its state is B's target: the camera of B
  merged into the state B started from, not a blend with the target of A.
\<close>

theorem superseded_transition:
  assumes A: "callA = EaseTo camA animA \<or> callA = FlyTo camA animA"
      "duration animA = Some dA" "0 < dA"
    and B: "callB = EaseTo camB animB \<or> callB = FlyTo camB animB"
      "duration animB = Some dB" "0 < dB"
    and cb: "transitionFinishFn animB = Some cbB"
    and f1: "\<forall>t\<in>set tsA. t < tA + dA"
    and f2: "\<forall>t\<in>set tsB. t < tB + dB"
    and e: "tB + dB \<le> tEnd"
  shows "inTransition (transform (fst (runMap P ((tA, callA) # frames tsA) impl)))
       \<and> finishCallsOf
           (snd (runMap P (((tA, callA) # frames tsA) @ (tB, callB) # frames tsB) impl)) = []
       \<and> finishCallsOf
           (snd (runMap P
                  (((tA, callA) # frames tsA) @ ((tB, callB) # frames tsB)
                     @ (tEnd, RenderFrame) # frames tsC)
                  impl)) = [cbB]
       \<and> \<not> inTransition
             (transform
                (fst (runMap P
                        (((tA, callA) # frames tsA) @ ((tB, callB) # frames tsB)
                           @ (tEnd, RenderFrame) # frames tsC)
                        impl)))
       \<and> getState
           (transform
              (fst (runMap P
                      (((tA, callA) # frames tsA) @ ((tB, callB) # frames tsB)
                         @ (tEnd, RenderFrame) # frames tsC)
                      impl)))
           = applyCamera (getState (transform (fst (runMap P ((tA, callA) # frames tsA) impl))))
               camB"
proof -
  let ?i1 = "fst (stepMap P (tA, callA) impl)"
  let ?iB = "fst (runMap P (frames tsA) ?i1)"
  let ?i2 = "fst (stepMap P (tB, callB) ?iB)"
  let ?i3 = "fst (runMap P (frames tsB) ?i2)"
  let ?i4 = "fst (stepMap P (tEnd, RenderFrame) ?i3)"
  let ?tgt = "applyCamera (getState (transform ?iB)) camB"
  \<comment> \<open>A is registered and stays in flight through the frames before B\<close>
  obtain frA where trA: "transform ?i1 =
      (transform impl)
        \<lparr>transition :=
           Some \<lparr>tr_start = tA, tr_duration = dA, tr_frame = frA,
                 tr_target = applyCamera (getState (transform impl)) camA,
                 tr_finish = transitionFinishFn animA\<rparr>\<rparr>"
    using transition_start(1) [OF A] by blast
  let ?trA = "\<lparr>tr_start = tA, tr_duration = dA, tr_frame = frA,
                tr_target = applyCamera (getState (transform impl)) camA,
                tr_finish = transitionFinishFn animA\<rparr>"
  have a1: "transition (transform ?i1) = Some ?trA" by (simp add: trA)
  have a2: "\<forall>t\<in>set tsA. t < tr_start ?trA + tr_duration ?trA" using f1 by simp
  note FA = frames_in_progress [OF a1 a2, of P]
  have inA: "transition (transform ?iB) = Some ?trA" using FA by blast
  have effA: "finishCallsOf (snd (stepMap P (tA, callA) impl)) = []"
    using transition_start(2) [OF A] .
  have eff1: "finishCallsOf (snd (runMap P (frames tsA) ?i1)) = []" using FA by blast
  \<comment> \<open>B replaces A and stays in flight through the frames before its end\<close>
  obtain frB where trB: "transform ?i2 =
      (transform ?iB)
        \<lparr>transition :=
           Some \<lparr>tr_start = tB, tr_duration = dB, tr_frame = frB,
                 tr_target = ?tgt, tr_finish = transitionFinishFn animB\<rparr>\<rparr>"
    using transition_start(1) [OF B] by blast
  let ?trB = "\<lparr>tr_start = tB, tr_duration = dB, tr_frame = frB,
                tr_target = ?tgt, tr_finish = transitionFinishFn animB\<rparr>"
  have b1: "transition (transform ?i2) = Some ?trB" by (simp add: trB)
  have b2: "\<forall>t\<in>set tsB. t < tr_start ?trB + tr_duration ?trB" using f2 by simp
  have stB: "getState (transform ?i2) = getState (transform ?iB)" by (simp add: trB)
  note FB = frames_in_progress [OF b1 b2, of P ?tgt]
  have inB: "transition (transform ?i3) = Some ?trB" using FB by blast
  have effB: "finishCallsOf (snd (stepMap P (tB, callB) ?iB)) = []"
    using transition_start(2) [OF B] .
  have eff2: "finishCallsOf (snd (runMap P (frames tsB) ?i2)) = []" using FB by blast
  have cam: "withCamera (getState (transform ?i3)) ?tgt = ?tgt"
    using FB stB by (simp add: withCamera_applyCamera)
  \<comment> \<open>the frame at the end of B completes it\<close>
  have e': "tr_start ?trB + tr_duration ?trB \<le> tEnd" using e by simp
  note C = frame_completes [OF inB e', of P]
  have idle: "transition (transform ?i4) = None" using C(1) .
  have st4: "getState (transform ?i4) = ?tgt"
    using C(2) cam by (simp add: constrain_applyCamera)
  have eff3: "finishCallsOf (snd (stepMap P (tEnd, RenderFrame) ?i3)) = [cbB]"
    using C(3) cb by simp
  have rest: "runMap P (frames tsC) ?i4 = (?i4, [])" using frames_idle [OF idle] .
  \<comment> \<open>the runs, taken apart\<close>
  let ?before = "(tA, callA) # frames tsA"
  let ?during = "?before @ (tB, callB) # frames tsB"
  let ?all = "?before @ ((tB, callB) # frames tsB) @ (tEnd, RenderFrame) # frames tsC"
  have r1: "fst (runMap P ?before impl) = ?iB"
    by (simp only: runMap_Cons_fst)
  have s1: "finishCallsOf (snd (runMap P ?before impl)) = []"
    by (simp only: runMap_Cons_snd finishCallsOf_append effA eff1 append_Nil)
  have r2: "fst (runMap P ?during impl) = ?i3"
    by (simp only: runMap_append_fst r1 runMap_Cons_fst)
  have s2: "finishCallsOf (snd (runMap P ?during impl)) = []"
    by (simp only: runMap_append_snd r1 runMap_Cons_snd finishCallsOf_append effA eff1 effB eff2
        append_Nil)
  have split: "?all = ?during @ (tEnd, RenderFrame) # frames tsC"
    by simp
  have r3: "fst (runMap P ?all impl) = ?i4"
    by (simp only: split runMap_append_fst r2 runMap_Cons_fst rest fst_conv)
  have s3: "finishCallsOf (snd (runMap P ?all impl)) = [cbB]"
    by (simp only: split runMap_append_snd r1 r2 runMap_Cons_snd finishCallsOf_append effA eff1
        effB eff2 eff3 rest snd_conv finishCallsOf.simps append_Nil append_Nil2)
  have i: "inTransition (transform ?iB)" using inA by (simp add: inTransition_def)
  have n: "\<not> inTransition (transform ?i4)" using idle by (simp add: inTransition_def)
  show ?thesis
    by (simp only: r1 r3 s2 s3 st4 i n simp_thms)
qed

theorem superseded_transition_witness:
  "(50::nat) < 0 + 1000 \<and> (600::nat) < 100 + 1000 \<and> (100::nat) + 1000 \<le> 1100
   \<and> inTransition
       (transform (fst (runMap exampleProjection ((0, EaseTo (zoomTo 10) oneSecond) # frames [50])
                          exampleImpl)))
   \<and> finishCallsOf
       (snd (runMap exampleProjection
               (((0, EaseTo (zoomTo 10) oneSecond) # frames [50])
                  @ ((100, EaseTo (zoomTo 7) anotherSecond) # frames [600])
                  @ (1100, RenderFrame) # frames [1200])
               exampleImpl)) = [2]
   \<and> getZoom
       (getState
          (transform
             (fst (runMap exampleProjection
                     (((0, EaseTo (zoomTo 10) oneSecond) # frames [50])
                        @ ((100, EaseTo (zoomTo 7) anotherSecond) # frames [600])
                        @ (1100, RenderFrame) # frames [1200])
                     exampleImpl)))) = Finite 7"
proof -
  have A: "EaseTo (zoomTo 10) oneSecond = EaseTo (zoomTo 10) oneSecond
             \<or> EaseTo (zoomTo 10) oneSecond = FlyTo (zoomTo 10) oneSecond"
    "duration oneSecond = Some 1000" "(0::nat) < 1000"
    by (simp_all add: oneSecond_def)
  have B: "EaseTo (zoomTo 7) anotherSecond = EaseTo (zoomTo 7) anotherSecond
             \<or> EaseTo (zoomTo 7) anotherSecond = FlyTo (zoomTo 7) anotherSecond"
    "duration anotherSecond = Some 1000" "(0::nat) < 1000"
    by (simp_all add: anotherSecond_def)
  have cb: "transitionFinishFn anotherSecond = Some 2" by (simp add: anotherSecond_def)
  have f1: "\<forall>t\<in>set [50::nat]. t < 0 + 1000" by simp
  have f2: "\<forall>t\<in>set [600::nat]. t < 100 + 1000" by simp
  have e: "(100::nat) + 1000 \<le> 1100" by simp
  note T = superseded_transition [OF A B cb f1 f2 e, where P = exampleProjection and tsC = "[1200]"
      and impl = exampleImpl]
  have r: "getMinZoom (getState (transform (fst (runMap exampleProjection
              ((0, EaseTo (zoomTo 10) oneSecond) # frames [50]) exampleImpl)))) = Finite 0"
    "getMaxZoom (getState (transform (fst (runMap exampleProjection
              ((0, EaseTo (zoomTo 10) oneSecond) # frames [50]) exampleImpl)))) = Finite 22"
    by (simp_all add: frames_def andThen_fst onTransform_fst Map_easeTo_def Transform_easeTo_def
        startTransition_def oneSecond_def Let_def Impl_onUpdate_def updateTransitions_def
        constrain_def withCamera_def exampleImpl_def Transform_of_state_def exampleState_def)
  note c1 = T [THEN conjunct1]
  note c3 = T [THEN conjunct2, THEN conjunct2, THEN conjunct1]
  note c5 = T [THEN conjunct2, THEN conjunct2, THEN conjunct2, THEN conjunct2]
  have z: "getZoom
       (getState
          (transform
             (fst (runMap exampleProjection
                     (((0, EaseTo (zoomTo 10) oneSecond) # frames [50])
                        @ ((100, EaseTo (zoomTo 7) anotherSecond) # frames [600])
                        @ (1100, RenderFrame) # frames [1200])
                     exampleImpl)))) = Finite 7"
    unfolding c5 applyCamera_fields r by (simp add: zoomTo_def util_clamp_def)
  have n: "(50::nat) < 0 + 1000" "(600::nat) < 100 + 1000" "(100::nat) + 1000 \<le> 1100"
    by simp_all
  show ?thesis using n c1 c3 z by blast
qed

end
